theory Spec2Isabelle
  imports Complex_Main "HOL-Library.Log_Nat" "HOL-Library.Word"
begin

section \<open>JavaScript numbers and values\<close>

text \<open>
  The credit endpoints compute with JavaScript numbers that come out of a JSON request
  body or an environment variable. A number is \<open>NaN\<close>, one of the two infinities, or a
  finite IEEE 754 double, which is held as the rational it denotes; \<open>-0\<close> is identified
  with \<open>0\<close>. Addition, multiplication and the conversion of a decimal literal compute the
  exact rational result and round it to the nearest double (ties to even), to an infinity
  when it is out of range.
\<close>

datatype jsnum = NaN | NegInf | Fin rat | PosInf

text \<open>
  A string is its sequence of UTF-16 code units. \<open>utf16\<close> gives the code units of a
  string of characters below \<open>U+0100\<close>, for writing literals.
\<close>

type_synonym jsstring = "16 word list"

definition utf16 :: "string \<Rightarrow> jsstring" where
  "utf16 s = map (\<lambda>c. of_nat (of_char c)) s"

text \<open>The primitive values a JSON body field or a header can hold.\<close>

datatype jsval = JUndefined | JNull | JBool bool | JNum jsnum | JStr jsstring

subsection \<open>Rounding to a double\<close>

definition pow2 :: "int \<Rightarrow> rat" where
  "pow2 k = (if 0 \<le> k then 2 ^ nat k else 1 / 2 ^ nat (- k))"

text \<open>\<open>ilog2 q\<close> is the integer part of the binary logarithm of a positive rational.\<close>

definition ilog2 :: "rat \<Rightarrow> int" where
  "ilog2 q =
     (let k = bitlen (fst (quotient_of q)) - bitlen (snd (quotient_of q))
      in if pow2 k \<le> q then k else k - 1)"

text \<open>The integer nearest to a rational, the even one of the two when it lies half way.\<close>

definition round_half_even :: "rat \<Rightarrow> int" where
  "round_half_even x =
     (let f = \<lfloor>x\<rfloor>;
          r = x - of_int f
      in if r < 1 / 2 then f
         else if 1 / 2 < r then f + 1
         else if even f then f
         else f + 1)"

text \<open>What rounds to \<open>2^1024\<close> or beyond has overflowed.\<close>

definition overflow :: rat where
  "overflow = 2 ^ 1024"

text \<open>
  Round to nearest, ties to even, with 53 significant bits and a least exponent of -1022
  (below it the spacing of the subnormal numbers stays \<open>2^-1074\<close>): the magnitude is
  rounded to a multiple of the spacing \<open>u\<close> at its exponent.
\<close>

definition round_double :: "rat \<Rightarrow> jsnum" where
  "round_double q =
     (if q = 0 then Fin 0
      else
        (let a = \<bar>q\<bar>;
             u = pow2 (max (ilog2 a) (- 1022) - 52);
             v = of_int (round_half_even (a / u)) * u
         in if overflow \<le> v then (if 0 < q then PosInf else NegInf)
            else Fin (if 0 < q then v else - v)))"

subsection \<open>Operators\<close>

text \<open>The relational operator \<open><\<close> on numbers: any comparison with \<open>NaN\<close> is false.\<close>

fun js_lt :: "jsnum \<Rightarrow> jsnum \<Rightarrow> bool" where
  "js_lt NaN _ = False"
| "js_lt _ NaN = False"
| "js_lt NegInf NegInf = False"
| "js_lt NegInf _ = True"
| "js_lt _ NegInf = False"
| "js_lt PosInf _ = False"
| "js_lt (Fin a) (Fin b) = (a < b)"
| "js_lt (Fin a) PosInf = True"

text \<open>\<open>a >= b\<close> on numbers: false when either side is \<open>NaN\<close>.\<close>

definition js_ge :: "jsnum \<Rightarrow> jsnum \<Rightarrow> bool" where
  "js_ge a b = (a \<noteq> NaN \<and> b \<noteq> NaN \<and> \<not> js_lt a b)"

fun js_neg :: "jsnum \<Rightarrow> jsnum" where
  "js_neg NaN = NaN"
| "js_neg NegInf = PosInf"
| "js_neg PosInf = NegInf"
| "js_neg (Fin a) = Fin (- a)"

fun js_add :: "jsnum \<Rightarrow> jsnum \<Rightarrow> jsnum" where
  "js_add NaN _ = NaN"
| "js_add _ NaN = NaN"
| "js_add (Fin a) (Fin b) = round_double (a + b)"
| "js_add PosInf NegInf = NaN"
| "js_add NegInf PosInf = NaN"
| "js_add PosInf _ = PosInf"
| "js_add NegInf _ = NegInf"
| "js_add (Fin a) b = b"

definition js_sub :: "jsnum \<Rightarrow> jsnum \<Rightarrow> jsnum" where
  "js_sub a b = js_add a (js_neg b)"

fun js_mul :: "jsnum \<Rightarrow> jsnum \<Rightarrow> jsnum" where
  "js_mul NaN _ = NaN"
| "js_mul _ NaN = NaN"
| "js_mul (Fin a) (Fin b) = round_double (a * b)"
| "js_mul (Fin a) PosInf = (if a = 0 then NaN else if 0 < a then PosInf else NegInf)"
| "js_mul (Fin a) NegInf = (if a = 0 then NaN else if 0 < a then NegInf else PosInf)"
| "js_mul PosInf (Fin b) = (if b = 0 then NaN else if 0 < b then PosInf else NegInf)"
| "js_mul NegInf (Fin b) = (if b = 0 then NaN else if 0 < b then NegInf else PosInf)"
| "js_mul PosInf PosInf = PosInf"
| "js_mul NegInf NegInf = PosInf"
| "js_mul PosInf NegInf = NegInf"
| "js_mul NegInf PosInf = NegInf"

text \<open>\<open>Math.max(a, b)\<close>: \<open>NaN\<close> when either argument is \<open>NaN\<close>.\<close>

definition Math_max :: "jsnum \<Rightarrow> jsnum \<Rightarrow> jsnum" where
  "Math_max a b = (if a = NaN \<or> b = NaN then NaN else if js_lt a b then b else a)"

text \<open>
  \<open>Math.round\<close> rounds to the nearest integer, ties towards \<open>+\<infinity>\<close>, and
  \<open>Math.ceil\<close> rounds up. On a double both results are doubles again, so nothing is
  rounded a second time.
\<close>

fun Math_round :: "jsnum \<Rightarrow> jsnum" where
  "Math_round (Fin a) = Fin (of_int \<lfloor>a + 1 / 2\<rfloor>)"
| "Math_round x = x"

fun Math_ceil :: "jsnum \<Rightarrow> jsnum" where
  "Math_ceil (Fin a) = Fin (of_int \<lceil>a\<rceil>)"
| "Math_ceil x = x"

text \<open>Truthiness, as used by \<open>!x\<close>, \<open>x || y\<close> and \<open>if (x)\<close>.\<close>

fun truthy :: "jsval \<Rightarrow> bool" where
  "truthy JUndefined = False"
| "truthy JNull = False"
| "truthy (JBool b) = b"
| "truthy (JNum n) = (n \<noteq> NaN \<and> n \<noteq> Fin 0)"
| "truthy (JStr s) = (s \<noteq> [])"

text \<open>\<open>a || b\<close>\<close>

definition js_or :: "jsval \<Rightarrow> jsval \<Rightarrow> jsval" where
  "js_or a b = (if truthy a then a else b)"

subsection \<open>Strings to numbers\<close>

text \<open>
  \<open>Number(s)\<close> on a string follows the StringNumericLiteral grammar: surrounding white
  space and line terminators are dropped; the empty string is \<open>0\<close>; then an optionally
  signed \<open>Infinity\<close>, an optionally signed decimal literal with optional fraction and
  exponent, or an unsigned \<open>0x\<close>, \<open>0o\<close>, \<open>0b\<close> integer; anything else is \<open>NaN\<close>.
  The value of the literal is then rounded to a double.
\<close>

text \<open>
  White space and line terminators: TAB, LF, VT, FF, CR, the space, the no-break space,
  \<open>U+1680\<close>, \<open>U+2000\<close> to \<open>U+200A\<close>, the line and paragraph separators, \<open>U+202F\<close>,
  \<open>U+205F\<close>, \<open>U+3000\<close> and the byte order mark \<open>U+FEFF\<close>.
\<close>

definition is_ws :: "16 word \<Rightarrow> bool" where
  "is_ws c =
     (let n = uint c
      in (9 \<le> n \<and> n \<le> 13) \<or> n = 32 \<or> n = 160 \<or> n = 5760 \<or> (8192 \<le> n \<and> n \<le> 8202) \<or>
         n = 8232 \<or> n = 8233 \<or> n = 8239 \<or> n = 8287 \<or> n = 12288 \<or> n = 65279)"

definition trim :: "jsstring \<Rightarrow> jsstring" where
  "trim s = rev (dropWhile is_ws (rev (dropWhile is_ws s)))"

definition digit_of :: "nat \<Rightarrow> 16 word \<Rightarrow> nat option" where
  "digit_of base c =
     (let n = uint c;
          d = (if 48 \<le> n \<and> n \<le> 57 then Some (nat (n - 48))
               else if 97 \<le> n \<and> n \<le> 102 then Some (nat (n - 87))
               else if 65 \<le> n \<and> n \<le> 70 then Some (nat (n - 55))
               else None)
      in case d of None \<Rightarrow> None | Some v \<Rightarrow> if v < base then Some v else None)"

text \<open>A run of digits in the given base, most significant first.\<close>

fun digits_acc :: "nat \<Rightarrow> nat \<Rightarrow> jsstring \<Rightarrow> nat option" where
  "digits_acc base acc [] = Some acc"
| "digits_acc base acc (c # cs) =
     (case digit_of base c of None \<Rightarrow> None | Some d \<Rightarrow> digits_acc base (acc * base + d) cs)"

text \<open>A non-empty run of digits.\<close>

definition digits :: "nat \<Rightarrow> jsstring \<Rightarrow> nat option" where
  "digits base s = (if s = [] then None else digits_acc base 0 s)"

text \<open>Decimal digits that may be absent (the parts around the decimal point).\<close>

definition digits_opt :: "jsstring \<Rightarrow> nat option" where
  "digits_opt s = digits_acc 10 0 s"

definition is_exp_char :: "16 word \<Rightarrow> bool" where
  "is_exp_char c = (uint c = 101 \<or> uint c = 69)"

definition is_dot :: "16 word \<Rightarrow> bool" where
  "is_dot c = (uint c = 46)"

text \<open>\<open>SignedInteger\<close> of an exponent part; 43 is \<open>+\<close> and 45 is \<open>-\<close>.\<close>

definition signed_integer :: "jsstring \<Rightarrow> int option" where
  "signed_integer s =
     (case s of
        [] \<Rightarrow> None
      | c # cs \<Rightarrow>
          if uint c = 43 then map_option int (digits 10 cs)
          else if uint c = 45 then map_option (\<lambda>n. - int n) (digits 10 cs)
          else map_option int (digits 10 s))"

definition pow10 :: "int \<Rightarrow> rat" where
  "pow10 k = (if 0 \<le> k then 10 ^ nat k else 1 / 10 ^ nat (- k))"

text \<open>\<open>StrUnsignedDecimalLiteral\<close> without \<open>Infinity\<close>: mantissa and optional exponent.\<close>

definition unsigned_decimal :: "jsstring \<Rightarrow> rat option" where
  "unsigned_decimal s =
     (let mant = takeWhile (\<lambda>c. \<not> is_exp_char c) s;
          rest = dropWhile (\<lambda>c. \<not> is_exp_char c) s;
          ip = takeWhile (\<lambda>c. \<not> is_dot c) mant;
          fp = (case dropWhile (\<lambda>c. \<not> is_dot c) mant of [] \<Rightarrow> [] | _ # r \<Rightarrow> r);
          ex = (case rest of [] \<Rightarrow> Some 0 | _ # r \<Rightarrow> signed_integer r)
      in if ip = [] \<and> fp = [] then None
         else case (digits_opt ip, digits_opt fp, ex) of
                (Some i, Some f, Some k) \<Rightarrow>
                  Some ((of_nat i + of_nat f / 10 ^ length fp) * pow10 k)
              | _ \<Rightarrow> None)"

definition str_decimal :: "jsstring \<Rightarrow> jsnum" where
  "str_decimal s =
     (let neg = (s \<noteq> [] \<and> uint (hd s) = 45);
          u = (if s \<noteq> [] \<and> (uint (hd s) = 43 \<or> uint (hd s) = 45) then tl s else s)
      in if u = utf16 ''Infinity'' then (if neg then NegInf else PosInf)
         else case unsigned_decimal u of
                None \<Rightarrow> NaN
              | Some q \<Rightarrow> Fin (if neg then - q else q))"

text \<open>
  \<open>NonDecimalIntegerLiteral\<close>: \<open>0\<close> (48) followed by \<open>x\<close>, \<open>o\<close> or \<open>b\<close> in either
  case and at least one digit of that base.
\<close>

definition non_decimal :: "jsstring \<Rightarrow> nat option" where
  "non_decimal s =
     (case s of
        c0 # c1 # r \<Rightarrow>
          if uint c0 = 48 \<and> (uint c1 = 120 \<or> uint c1 = 88) then digits 16 r
          else if uint c0 = 48 \<and> (uint c1 = 111 \<or> uint c1 = 79) then digits 8 r
          else if uint c0 = 48 \<and> (uint c1 = 98 \<or> uint c1 = 66) then digits 2 r
          else None
      | _ \<Rightarrow> None)"

text \<open>
  The mathematical value of a string numeric literal, before rounding: here \<open>Fin\<close>
  carries the exact value of the literal.
\<close>

definition StringNumericValue :: "jsstring \<Rightarrow> jsnum" where
  "StringNumericValue s =
     (let t = trim s
      in if t = [] then Fin 0
         else case non_decimal t of
                Some n \<Rightarrow> Fin (of_nat n)
              | None \<Rightarrow> str_decimal t)"

definition StringToNumber :: "jsstring \<Rightarrow> jsnum" where
  "StringToNumber s =
     (case StringNumericValue s of
        Fin q \<Rightarrow> round_double q
      | x \<Rightarrow> x)"

text \<open>\<open>Number(v)\<close>, also applied implicitly by \<open>Math.ceil\<close> and the arithmetic operators.\<close>

fun ToNumber :: "jsval \<Rightarrow> jsnum" where
  "ToNumber JUndefined = NaN"
| "ToNumber JNull = Fin 0"
| "ToNumber (JBool b) = Fin (if b then 1 else 0)"
| "ToNumber (JNum n) = n"
| "ToNumber (JStr s) = StringToNumber s"

section \<open>The in-memory credit server (\<open>webhook-server.js\<close>)\<close>

text \<open>
  The server keeps \<open>usersByEmail\<close>, a map from e-mail address to a user object, and
  \<open>processedWebhookIds\<close>, the set of webhook ids already handled. The handlers mutate
  these in place; the model passes the store in and returns the new one. Writing the
  store through to disk or Postgres (\<open>scheduleSave\<close>, \<open>upsertUserToDb\<close>) does not
  feed back into the handlers below and is left out. The fields of a user object other than
  \<open>balance\<close> are optional, because the fallback object \<open>{ balance: 0 }\<close> of the
  \<open>/v1/jobs\<close> handler has none of them.
\<close>

record user =
  balance :: jsnum
  planId :: "string option"
  planName :: "string option"
  cycleEnd :: "nat option"
  shopifyCustomerId :: "string option"

record store =
  usersByEmail :: "string \<rightharpoonup> user"
  processedWebhookIds :: "string set"

text \<open>
  The environment variables the handlers read (\<open>None\<close>: not set).
  \<open>CREDITS_PER_SECOND\<close> is held as code units, because it is converted to a number;
  the others are only compared.
\<close>

record env =
  CREDITS_PER_SECOND :: "jsstring option"
  SHOPIFY_WEBHOOK_SECRET :: "string option"
  SELLING_PLAN_TIER1 :: "string option"
  SELLING_PLAN_TIER2 :: "string option"
  SELLING_PLAN_TIER3 :: "string option"

text \<open>An environment variable or a header as a value: a string, or \<open>undefined\<close>.\<close>

definition opt_val :: "jsstring option \<Rightarrow> jsval" where
  "opt_val x = (case x of None \<Rightarrow> JUndefined | Some s \<Rightarrow> JStr s)"

text \<open>Decimal digits of a natural number, for \<open>`task_${Date.now()}`\<close>.\<close>

fun dec :: "nat \<Rightarrow> string" where
  "dec n = (if n < 10 then [char_of (48 + n)] else dec (n div 10) @ [char_of (48 + n mod 10)])"

declare dec.simps [simp del]

subsection \<open>\<open>POST /v1/jobs { requestedSeconds }\<close>: reserving credits\<close>

text \<open>
  \<^verbatim>\<open>
  const requestedSeconds = Math.max(0, Number(req.body?.requestedSeconds || 0));
  const creditsPerSecond = Number(process.env.CREDITS_PER_SECOND || 15);
  const billableSeconds = Math.max(1, Math.round(requestedSeconds));
  const needed = billableSeconds * creditsPerSecond;
  const user = usersByEmail.get(req.email) || { balance: 0 };
  if (user.balance < needed)
    return res.status(402).json({ error: 'Insufficient credits', needed, balance: user.balance });
  user.balance -= needed;
  usersByEmail.set(req.email, user);
  res.json({ taskId: `task_${Date.now()}`, reservedCredits: needed });
  \<close>
  The argument \<open>body\<close> is the field \<open>req.body?.requestedSeconds\<close>
  (\<open>JUndefined\<close> when the body or the field is missing), \<open>email\<close> is the address
  that \<open>requireAuth\<close> took from the bearer token, and \<open>now\<close> is \<open>Date.now()\<close>.
\<close>

definition requestedSeconds :: "jsval \<Rightarrow> jsnum" where
  "requestedSeconds body = Math_max (Fin 0) (ToNumber (js_or body (JNum (Fin 0))))"

definition creditsPerSecond :: "env \<Rightarrow> jsnum" where
  "creditsPerSecond e = ToNumber (js_or (opt_val (CREDITS_PER_SECOND e)) (JNum (Fin 15)))"

definition billableSeconds :: "jsval \<Rightarrow> jsnum" where
  "billableSeconds body = Math_max (Fin 1) (Math_round (requestedSeconds body))"

definition needed :: "env \<Rightarrow> jsval \<Rightarrow> jsnum" where
  "needed e body = js_mul (billableSeconds body) (creditsPerSecond e)"

text \<open>\<open>usersByEmail.get(email) || { balance: 0 }\<close>\<close>

definition user_or_default :: "store \<Rightarrow> string \<Rightarrow> user" where
  "user_or_default st email =
     (case usersByEmail st email of
        Some u \<Rightarrow> u
      | None \<Rightarrow> \<lparr>balance = Fin 0, planId = None, planName = None, cycleEnd = None,
                  shopifyCustomerId = None\<rparr>)"

datatype jobs_response =
    Insufficient_credits jsnum jsnum
  | Reserved string jsnum

text \<open>
  \<open>Insufficient_credits needed balance\<close> is the 402 response with its two fields;
  \<open>Reserved taskId reservedCredits\<close> is the 200 response.
\<close>

definition v1_jobs :: "env \<Rightarrow> nat \<Rightarrow> string \<Rightarrow> jsval \<Rightarrow> store \<Rightarrow> store \<times> jobs_response" where
  "v1_jobs e now email body st =
     (let user = user_or_default st email
      in if js_lt (balance user) (needed e body)
         then (st, Insufficient_credits (needed e body) (balance user))
         else (st\<lparr>usersByEmail := (usersByEmail st)
                    (email \<mapsto> user\<lparr>balance := js_sub (balance user) (needed e body)\<rparr>)\<rparr>,
               Reserved (''task_'' @ dec now) (needed e body)))"

subsection \<open>\<open>POST /v1/webhooks/shopify\<close>: granting credits for a paid order\<close>

text \<open>
  What the handler reads of the parsed order. An item's \<open>selling_plan_allocation\<close> is
  \<open>null\<close>, missing, or an object; \<open>Alloc s\<close> carries
  \<open>String(selling_plan_allocation?.selling_plan?.id || '')\<close>. \<open>customer_email\<close>
  is \<open>order.customer?.email\<close> (\<open>None\<close> when there is none) and \<open>customer_id\<close>
  is \<open>String(order.customer?.id || '')\<close>.
\<close>

datatype allocation = AllocNull | AllocMissing | Alloc string

record line_item =
  selling_plan_allocation :: allocation
  sku :: jsval

record order =
  customer_email :: "string option"
  customer_id :: string
  line_items :: "line_item list option"

record webhook_request =
  x_shopify_topic :: "string option"
  x_shopify_hmac_sha256 :: "string option"
  x_shopify_webhook_id :: "string option"
  raw_body :: string

datatype webhook_response =
    Duplicate
  | Invalid_signature
  | Bad_request
  | Received "string option" nat

text \<open>\<open>webhookId && processedWebhookIds.has(webhookId)\<close>\<close>

definition is_duplicate :: "store \<Rightarrow> string option \<Rightarrow> bool" where
  "is_duplicate st webhookId =
     (case webhookId of None \<Rightarrow> False | Some w \<Rightarrow> w \<noteq> [] \<and> w \<in> processedWebhookIds st)"

text \<open>
  The signature check. \<open>hmac secret body\<close> stands for
  \<open>crypto.createHmac('sha256', secret).update(body, 'utf8').digest('base64')\<close>, with
  \<open>None\<close> when the call throws. The check is skipped when no secret is configured.
\<close>

datatype hmac_result = Hmac_ok | Hmac_failed | Hmac_error

definition verify_hmac :: "(string \<Rightarrow> string \<Rightarrow> string option) \<Rightarrow> env \<Rightarrow> webhook_request \<Rightarrow> hmac_result" where
  "verify_hmac hmac e req =
     (if truthy (opt_val (map_option utf16 (SHOPIFY_WEBHOOK_SECRET e)))
      then (case SHOPIFY_WEBHOOK_SECRET e of
              None \<Rightarrow> Hmac_ok
            | Some secret \<Rightarrow>
                (case hmac secret (raw_body req) of
                   None \<Rightarrow> Hmac_error
                 | Some h \<Rightarrow> if x_shopify_hmac_sha256 req = Some h then Hmac_ok else Hmac_failed))
      else Hmac_ok)"

text \<open>\<open>process.env.SELLING_PLAN_TIERn || '<default id>'\<close>\<close>

definition tier_key :: "string option \<Rightarrow> string \<Rightarrow> string" where
  "tier_key v d = (case v of None \<Rightarrow> d | Some s \<Rightarrow> if s = [] then d else s)"

text \<open>
  \<open>planCredits[planId] || 1000\<close>. The object literal has three computed keys; where
  two keys coincide the later entry stands. Property names that every object inherits
  (such as \<open>constructor\<close>) are not modelled.
\<close>

definition planCredits :: "env \<Rightarrow> string \<Rightarrow> nat option" where
  "planCredits e k =
     (if k = tier_key (SELLING_PLAN_TIER3 e) ''690385551702'' then Some 24000
      else if k = tier_key (SELLING_PLAN_TIER2 e) ''690385518934'' then Some 7500
      else if k = tier_key (SELLING_PLAN_TIER1 e) ''690384601430'' then Some 3000
      else None)"

definition credits_for_plan :: "env \<Rightarrow> string \<Rightarrow> nat" where
  "credits_for_plan e k = (case planCredits e k of None \<Rightarrow> 1000 | Some c \<Rightarrow> c)"

definition plan_of :: "allocation \<Rightarrow> string" where
  "plan_of a = (case a of Alloc s \<Rightarrow> s | _ \<Rightarrow> [])"

text \<open>\<open>prev.balance || 0\<close>\<close>

definition balance_or_0 :: "jsnum \<Rightarrow> jsnum" where
  "balance_or_0 b = (if truthy (JNum b) then b else Fin 0)"

text \<open>Thirty days in milliseconds: \<open>30*24*60*60*1000\<close>.\<close>

definition cycle_ms :: nat where
  "cycle_ms = 30 * 24 * 60 * 60 * 1000"

text \<open>The credit grant for an order with subscription items (inside \<open>if (email)\<close>).\<close>

definition grant :: "env \<Rightarrow> nat \<Rightarrow> order \<Rightarrow> line_item list \<Rightarrow> (string \<rightharpoonup> user) \<Rightarrow> (string \<rightharpoonup> user)" where
  "grant e now ord subscriptionItems users =
     (let planId' = (case subscriptionItems of [] \<Rightarrow> [] | i # _ \<Rightarrow> plan_of (selling_plan_allocation i));
          credits = credits_for_plan e planId'
      in case customer_email ord of
           None \<Rightarrow> users
         | Some email \<Rightarrow>
             if email = [] then users
             else
               (let prev = (case users email of
                              Some u \<Rightarrow> u
                            | None \<Rightarrow> \<lparr>balance = Fin 0, planId = Some planId', planName = Some planId',
                                        cycleEnd = Some (now + cycle_ms),
                                        shopifyCustomerId = Some (customer_id ord)\<rparr>)
                in users(email \<mapsto>
                     \<lparr>balance = js_add (balance_or_0 (balance prev)) (Fin (of_nat credits)),
                      planId = Some planId', planName = Some planId',
                      cycleEnd = Some (now + cycle_ms),
                      shopifyCustomerId = Some (customer_id ord)\<rparr>)))"

text \<open>
  \<open>item.sku && (item.sku.includes('TOPUP') || ...)\<close> throws a TypeError on a truthy
  \<open>sku\<close> that is not a string; the filters run before the grant.
\<close>

definition sku_throws :: "line_item \<Rightarrow> bool" where
  "sku_throws i = (case sku i of JStr _ \<Rightarrow> False | v \<Rightarrow> truthy v)"

text \<open>
  The body of the second \<open>try\<close> block. \<open>parse\<close> stands for \<open>JSON.parse\<close> followed by
  the reads of the order's fields, with \<open>None\<close> when that throws. Whatever is thrown is
  caught and logged, and the handler goes on.
\<close>

definition process_order :: "(string \<Rightarrow> order option) \<Rightarrow> env \<Rightarrow> nat \<Rightarrow> webhook_request \<Rightarrow> (string \<rightharpoonup> user) \<Rightarrow> (string \<rightharpoonup> user)" where
  "process_order parse e now req users =
     (case parse (raw_body req) of
        None \<Rightarrow> users
      | Some ord \<Rightarrow>
          (let items = (case line_items ord of None \<Rightarrow> [] | Some xs \<Rightarrow> xs);
               subscriptionItems = filter (\<lambda>i. selling_plan_allocation i \<noteq> AllocNull) items
           in if list_ex sku_throws items then users
              else if subscriptionItems \<noteq> [] then grant e now ord subscriptionItems users
              else users))"

text \<open>\<open>if (webhookId) processedWebhookIds.add(webhookId)\<close>\<close>

definition mark_processed :: "string option \<Rightarrow> string set \<Rightarrow> string set" where
  "mark_processed webhookId ids =
     (case webhookId of None \<Rightarrow> ids | Some w \<Rightarrow> if w = [] then ids else insert w ids)"

definition shopify_webhook ::
  "(string \<Rightarrow> string \<Rightarrow> string option) \<Rightarrow> (string \<Rightarrow> order option) \<Rightarrow> env \<Rightarrow> nat \<Rightarrow>
     webhook_request \<Rightarrow> store \<Rightarrow> store \<times> webhook_response" where
  "shopify_webhook hmac parse e now req st =
     (if is_duplicate st (x_shopify_webhook_id req) then (st, Duplicate)
      else case verify_hmac hmac e req of
             Hmac_failed \<Rightarrow> (st, Invalid_signature)
           | Hmac_error \<Rightarrow> (st, Bad_request)
           | Hmac_ok \<Rightarrow>
               (\<lparr>usersByEmail = process_order parse e now req (usersByEmail st),
                 processedWebhookIds =
                   mark_processed (x_shopify_webhook_id req) (processedWebhookIds st)\<rparr>,
                Received (x_shopify_topic req) now))"

section \<open>The Postgres-backed API (\<open>api/v2/index.js\<close>, \<open>api/v2/utils.js\<close>)\<close>

text \<open>
  The \<open>users\<close> table, as \<open>setup_db.js\<close> creates it, keyed by its primary key
  \<open>email\<close>. \<open>balance\<close> is an \<open>INTEGER NOT NULL\<close> column: a 32-bit signed
  integer, and Postgres raises an error instead of storing a value out of its range.
\<close>

record users_row =
  db_balance :: int
  plan_id :: "string option"
  plan_name :: "string option"
  cycle_end :: "nat option"
  shopify_customer_id :: "string option"

type_synonym users_table = "string \<rightharpoonup> users_row"

datatype error =
    Invalid_CREDITS_PER_SECOND
  | Failed_to_return_balance
  | Database_error
  | Connection_timeout

text \<open>
  \<^verbatim>\<open>
  export function calculateCredits(seconds) {
    const creditsPerSecond = Number(process.env.CREDITS_PER_SECOND)
    if (Number.isNaN(creditsPerSecond)) { throw new Error('Invalid CREDITS_PER_SECOND') }
    // Note: Round seconds up to the highest second
    return Math.ceil(seconds) * creditsPerSecond
  }
  \<close>
\<close>

definition calculateCredits :: "env \<Rightarrow> jsval \<Rightarrow> error + jsnum" where
  "calculateCredits e seconds =
     (let creditsPerSecond' = ToNumber (opt_val (CREDITS_PER_SECOND e))
      in if creditsPerSecond' = NaN then Inl Invalid_CREDITS_PER_SECOND
         else Inr (js_mul (Math_ceil (ToNumber seconds)) creditsPerSecond'))"

definition in_int4 :: "int \<Rightarrow> bool" where
  "in_int4 i = (- 2147483648 \<le> i \<and> i \<le> 2147483647)"

text \<open>
  The query parameter \<open>$1\<close> of \<open>balance - $1\<close> is read by Postgres as an
  \<open>INTEGER\<close>: the driver sends the number as text, and anything but an integer in range
  fails the query.
\<close>

definition pg_integer :: "jsnum \<Rightarrow> int option" where
  "pg_integer n =
     (case n of
        Fin q \<Rightarrow> if of_int \<lfloor>q\<rfloor> = q \<and> in_int4 \<lfloor>q\<rfloor> then Some \<lfloor>q\<rfloor> else None
      | _ \<Rightarrow> None)"

text \<open>
  The connection pool. Every \<open>getUser\<close> and \<open>subtractCredits\<close> call takes a client
  with \<open>pool.connect()\<close> and never releases it. \<open>pool_max\<close> is the pool's \<open>max\<close>
  option (the constructor call gives none, and the driver's default applies);
  \<open>pool_clients\<close> counts the clients taken. With all clients taken,
  \<open>pool.connect()\<close> waits for \<open>connectionTimeoutMillis\<close> and throws. Other
  failures of the connection are not modelled.
\<close>

record database =
  users :: users_table
  pool_max :: nat
  pool_clients :: nat

definition pool_connect :: "database \<Rightarrow> database option" where
  "pool_connect db =
     (if pool_clients db < pool_max db then Some (db\<lparr>pool_clients := pool_clients db + 1\<rparr>)
      else None)"

text \<open>
  \<^verbatim>\<open>
  async function subtractCredits(email, seconds) {
    const db = await pool.connect()
    const credits = calculateCredits(seconds)
    // TODO: Make sure balance cannot go below 0
    const result = await db.query(
      `UPDATE users SET balance = balance - $1 WHERE email = $2 RETURNING balance`,
      [credits, email])
    const balance = result.rows[0]
    if (!balance) { throw new Error('Failed to return balance') }
    return balance
  }
  \<close>
  The result is the database afterwards, with the error thrown or the balance returned.
\<close>

definition subtractCredits :: "env \<Rightarrow> string \<Rightarrow> jsval \<Rightarrow> database \<Rightarrow> database \<times> (error + int)" where
  "subtractCredits e email seconds db =
     (case pool_connect db of
        None \<Rightarrow> (db, Inl Connection_timeout)
      | Some db1 \<Rightarrow>
          (case calculateCredits e seconds of
             Inl err \<Rightarrow> (db1, Inl err)
           | Inr credits \<Rightarrow>
               (case pg_integer credits of
                  None \<Rightarrow> (db1, Inl Database_error)
                | Some c \<Rightarrow>
                    (case users db1 email of
                       None \<Rightarrow> (db1, Inl Failed_to_return_balance)
                     | Some row \<Rightarrow>
                         if in_int4 (db_balance row - c)
                         then (db1\<lparr>users := (users db1)
                                   (email \<mapsto> row\<lparr>db_balance := db_balance row - c\<rparr>)\<rparr>,
                               Inr (db_balance row - c))
                         else (db1, Inl Database_error)))))"

text \<open>
  \<open>POST /status { id, seconds }\<close>. The argument \<open>task_id\<close> is the field \<open>id\<close> of
  the body, and \<open>retrieve task_id\<close> stands for the status of the task that
  \<open>runway.tasks.retrieve(id)\<close> returns (\<open>None\<close> when the call throws). Every error
  thrown inside the handler becomes the 500 response.
  \<^verbatim>\<open>
  const { id, seconds } = req.body
  if (!id || !seconds) { return res.status(Status.BAD_REQUEST).json({ error: 'Bad Request' }) }
  const task = await runway.tasks.retrieve(id)
  if (task.status === 'SUCCEEDED') {
    const credits = await subtractCredits(email, seconds)
    return res.json({ ...task, credits })
  }
  return res.json(task)
  \<close>
\<close>

datatype status_response =
    Bad_Request
  | Internal_Server_Error
  | Task string
  | Task_with_credits string int

definition v2_status ::
  "env \<Rightarrow> (jsval \<Rightarrow> string option) \<Rightarrow> string \<Rightarrow> jsval \<Rightarrow> jsval \<Rightarrow> database \<Rightarrow>
     database \<times> status_response" where
  "v2_status e retrieve email task_id seconds db =
     (if truthy task_id \<and> truthy seconds
      then (case retrieve task_id of
              None \<Rightarrow> (db, Internal_Server_Error)
            | Some status \<Rightarrow>
                if status = ''SUCCEEDED''
                then (case subtractCredits e email seconds db of
                        (db', Inl err) \<Rightarrow> (db', Internal_Server_Error)
                      | (db', Inr b) \<Rightarrow> (db', Task_with_credits status b))
                else (db, Task status))
      else (db, Bad_Request))"

section \<open>Example inputs\<close>

text \<open>Concrete environments, stores and requests on which the theorems are instantiated.\<close>

definition env_unset :: env where
  "env_unset = \<lparr>CREDITS_PER_SECOND = None, SHOPIFY_WEBHOOK_SECRET = None,
     SELLING_PLAN_TIER1 = None, SELLING_PLAN_TIER2 = None, SELLING_PLAN_TIER3 = None\<rparr>"

definition env_15 :: env where
  "env_15 = env_unset\<lparr>CREDITS_PER_SECOND := Some (utf16 ''15'')\<rparr>"

definition user_with :: "jsnum \<Rightarrow> user" where
  "user_with b = \<lparr>balance = b, planId = Some ''690384601430'', planName = Some ''690384601430'',
     cycleEnd = None, shopifyCustomerId = None\<rparr>"

definition store_with :: "jsnum \<Rightarrow> store" where
  "store_with b = \<lparr>usersByEmail = [''ada@example.com'' \<mapsto> user_with b], processedWebhookIds = {}\<rparr>"

definition row_with :: "int \<Rightarrow> users_row" where
  "row_with b = \<lparr>db_balance = b, plan_id = None, plan_name = None, cycle_end = None,
     shopify_customer_id = None\<rparr>"

text \<open>A database with one user, a pool of ten clients, and \<open>n\<close> of them taken.\<close>

definition db_with :: "int \<Rightarrow> nat \<Rightarrow> database" where
  "db_with b n = \<lparr>users = [''ada@example.com'' \<mapsto> row_with b], pool_max = 10,
     pool_clients = n\<rparr>"

definition succeeded :: "jsval \<Rightarrow> string option" where
  "succeeded task_id = Some ''SUCCEEDED''"

definition no_hmac :: "string \<Rightarrow> string \<Rightarrow> string option" where
  "no_hmac secret body = None"

definition renewal_order :: order where
  "renewal_order = \<lparr>customer_email = Some ''ada@example.com'', customer_id = ''7001'',
     line_items = Some [\<lparr>selling_plan_allocation = Alloc ''690385518934'',
                         sku = JStr (utf16 ''AUTOVFX-STUDIO'')\<rparr>]\<rparr>"

definition topup_order :: order where
  "topup_order = \<lparr>customer_email = Some ''ada@example.com'', customer_id = ''7001'',
     line_items = Some [\<lparr>selling_plan_allocation = AllocNull,
                         sku = JStr (utf16 ''AUTOVFX-TOPUP-1000'')\<rparr>]\<rparr>"

text \<open>
  A stand-in for \<open>JSON.parse\<close> on three bodies: a renewal order, a top-up order, and
  anything else, which does not parse.
\<close>

definition parse_example :: "string \<Rightarrow> order option" where
  "parse_example body =
     (if body = ''renewal.json'' then Some renewal_order
      else if body = ''topup.json'' then Some topup_order
      else None)"

definition delivery :: "string \<Rightarrow> string \<Rightarrow> webhook_request" where
  "delivery webhookId body = \<lparr>x_shopify_topic = Some ''orders/paid'',
     x_shopify_hmac_sha256 = None, x_shopify_webhook_id = Some webhookId, raw_body = body\<rparr>"


section \<open>Facts about JavaScript numbers\<close>

lemma pow2_pos [simp]: "0 < pow2 k"
  by (simp add: pow2_def)

lemma pow2_nonzero [simp]: "pow2 k \<noteq> 0"
  by (simp add: pow2_def)

lemma pow2_nonneg_int: "0 \<le> k \<Longrightarrow> pow2 k = of_int (2 ^ nat k)"
  by (simp add: pow2_def)

lemma pow2_neg_inverse: "k \<le> 0 \<Longrightarrow> pow2 k = 1 / of_int (2 ^ nat (- k))"
  by (cases "k = 0") (simp_all add: pow2_def)

lemma round_half_even_int [simp]: "round_half_even (of_int i) = i"
  by (simp add: round_half_even_def)

lemma round_half_even_nonneg: "0 \<le> x \<Longrightarrow> 0 \<le> round_half_even x"
  by (simp add: round_half_even_def Let_def)

lemma ilog2_int_le:
  assumes "0 < n" and "n < 2 ^ 53"
  shows "ilog2 (of_int n) \<le> 52"
proof -
  have "bitlen n \<le> 53"
    using assms(2) by (simp add: bitlen_le_iff_power)
  moreover have "bitlen 1 = 1"
    by (simp add: bitlen_alt_def)
  ultimately show ?thesis
    by (simp add: ilog2_def Let_def)
qed

text \<open>A rational that is a multiple of the spacing at its own exponent is a double.\<close>

lemma round_double_multiple:
  assumes "0 < a" and "a < overflow"
      and "a / pow2 (max (ilog2 a) (- 1022) - 52) = of_int i"
  shows "round_double a = Fin a" and "round_double (- a) = Fin (- a)"
proof -
  let ?u = "pow2 (max (ilog2 a) (- 1022) - 52)"
  have "(a / ?u) * ?u = a"
    by simp
  then have u: "of_int i * ?u = a"
    by (simp only: assms(3))
  have no: "\<not> overflow \<le> a"
    using assms(2) by simp
  show "round_double a = Fin a"
    using assms(1) no by (simp add: round_double_def Let_def assms(3) u)
  have "\<bar>- a\<bar> = a"
    using assms(1) by simp
  then show "round_double (- a) = Fin (- a)"
    using assms(1) no by (simp add: round_double_def Let_def assms(3) u)
qed

lemma int_below_overflow:
  assumes "n < 2 ^ 53"
  shows "(of_int n :: rat) < overflow"
proof -
  have "n < 2 ^ 1024"
    using assms by (rule less_trans) simp
  then have "(of_int n :: rat) < of_int (2 ^ 1024)"
    by (simp only: of_int_less_iff)
  then show ?thesis
    by (simp add: overflow_def)
qed

lemma round_double_pos_int:
  assumes "0 < n" and "n < 2 ^ 53"
  shows "round_double (of_int n) = Fin (of_int n)" and "round_double (- of_int n) = Fin (- of_int n)"
proof -
  let ?a = "of_int n :: rat"
  let ?e = "max (ilog2 ?a) (- 1022) - 52"
  have e: "?e \<le> 0"
    using ilog2_int_le [OF assms] by simp
  have whole: "?a / pow2 ?e = of_int (n * 2 ^ nat (- ?e))"
    using e by (simp add: pow2_neg_inverse)
  have pos: "0 < ?a"
    using assms(1) by simp
  have small: "?a < overflow"
    using assms(2) by (rule int_below_overflow)
  show "round_double ?a = Fin ?a"
    using pos small whole by (rule round_double_multiple(1))
  show "round_double (- ?a) = Fin (- ?a)"
    using pos small whole by (rule round_double_multiple(2))
qed

text \<open>Integers of magnitude below \<open>2^53\<close> are doubles: rounding leaves them alone.\<close>

lemma round_double_int:
  assumes "\<bar>n\<bar> < 2 ^ 53"
  shows "round_double (of_int n) = Fin (of_int n)"
proof (cases n "0 :: int" rule: linorder_cases)
  case equal
  then show ?thesis
    by (simp add: round_double_def)
next
  case greater
  with assms show ?thesis
    by (simp add: round_double_pos_int(1))
next
  case less
  with assms have "0 < - n" and "- n < 2 ^ 53"
    by simp_all
  from round_double_pos_int(2) [OF this] show ?thesis
    by simp
qed

lemma round_double_numeral:
  "(numeral k :: int) < 2 ^ 53 \<Longrightarrow> round_double (numeral k) = Fin (numeral k)"
  using round_double_int [of "numeral k"] by simp

lemma round_double_not_NaN [simp]: "round_double q \<noteq> NaN"
  by (simp add: round_double_def Let_def)

text \<open>
  The double nearest to a non-negative integer is a non-negative integer again, or
  \<open>Infinity\<close>.
\<close>

lemma round_double_nat:
  "round_double (of_nat m) = PosInf \<or> (\<exists>k :: nat. round_double (of_nat m) = Fin (of_nat k))"
proof (cases "m = 0")
  case True
  have "round_double (of_nat 0) = Fin (of_nat 0)"
    by (simp add: round_double_def)
  with True show ?thesis
    by blast
next
  case False
  let ?a = "of_nat m :: rat"
  let ?e = "max (ilog2 ?a) (- 1022) - 52"
  let ?n = "round_half_even (?a / pow2 ?e)"
  have pos: "0 < ?a"
    using False by simp
  have "0 \<le> ?a / pow2 ?e"
    using pos by (intro divide_nonneg_pos) simp_all
  then have n0: "0 \<le> ?n"
    by (rule round_half_even_nonneg)
  have "\<exists>k :: nat. of_int ?n * pow2 ?e = of_nat k"
  proof (cases "0 \<le> ?e")
    case True
    have "of_int ?n * pow2 ?e = (of_int (?n * 2 ^ nat ?e) :: rat)"
      using True by (simp add: pow2_nonneg_int)
    also have "\<dots> = of_nat (nat (?n * 2 ^ nat ?e))"
      using n0 by (simp add: of_nat_nat)
    finally show ?thesis
      by blast
  next
    case False
    then have e: "?e \<le> 0"
      by simp
    have whole: "?a / pow2 ?e = of_int (int m * 2 ^ nat (- ?e))"
      using e by (simp add: pow2_neg_inverse)
    have "?n = int m * 2 ^ nat (- ?e)"
      by (simp only: whole round_half_even_int)
    then have "of_int ?n = ?a / pow2 ?e"
      by (simp only: whole)
    then have "of_int ?n * pow2 ?e = (?a / pow2 ?e) * pow2 ?e"
      by (simp only:)
    also have "\<dots> = of_nat m"
      by simp
    finally show ?thesis
      by blast
  qed
  then obtain k :: nat where k: "of_int ?n * pow2 ?e = of_nat k"
    by blast
  have abs: "\<bar>?a\<bar> = ?a"
    by simp
  show ?thesis
  proof (cases "overflow \<le> of_nat k")
    case True
    then have "round_double ?a = PosInf"
      using pos k unfolding round_double_def Let_def abs by simp
    then show ?thesis
      by blast
  next
    case False
    then have "round_double ?a = Fin (of_nat k)"
      using pos k unfolding round_double_def Let_def abs by simp
    then show ?thesis
      by blast
  qed
qed

lemma js_lt_NaN_right [simp]: "js_lt a NaN = False"
  by (cases a) simp_all

lemma js_add_NaN_right [simp]: "js_add a NaN = NaN"
  by (cases a) simp_all

lemma js_sub_NaN_right [simp]: "js_sub a NaN = NaN"
  by (simp add: js_sub_def)

lemma js_mul_NaN_right [simp]: "js_mul a NaN = NaN"
  by (cases a) simp_all

lemma Math_max_Fin [simp]: "Math_max (Fin a) (Fin b) = Fin (max a b)"
  by (simp add: Math_max_def max_def)

lemma Math_max_NaN_right [simp]: "Math_max a NaN = NaN"
  by (simp add: Math_max_def)

lemma StringToNumber_empty [simp]: "StringToNumber [] = Fin 0"
  by (simp add: StringToNumber_def StringNumericValue_def trim_def round_double_def)


lemma StringToNumber_int:
  "StringNumericValue s = Fin (of_int n) \<Longrightarrow> \<bar>n\<bar> < 2 ^ 53 \<Longrightarrow> StringToNumber s = Fin (of_int n)"
  by (simp add: StringToNumber_def round_double_int)

lemma js_or_number_0 [simp]: "ToNumber (js_or (JNum n) (JNum (Fin 0))) = (if n = NaN then Fin 0 else n)"
  by (simp add: js_or_def)

lemma js_add_int:
  "\<bar>a + b\<bar> < 2 ^ 53 \<Longrightarrow> js_add (Fin (of_int a)) (Fin (of_int b)) = Fin (of_int (a + b))"
  using round_double_int [of "a + b"] by simp

lemma js_sub_int:
  "\<bar>a - b\<bar> < 2 ^ 53 \<Longrightarrow> js_sub (Fin (of_int a)) (Fin (of_int b)) = Fin (of_int (a - b))"
  using round_double_int [of "a - b"] by (simp add: js_sub_def)

lemma js_mul_int:
  "\<bar>a * b\<bar> < 2 ^ 53 \<Longrightarrow> js_mul (Fin (of_int a)) (Fin (of_int b)) = Fin (of_int (a * b))"
  using round_double_int [of "a * b"] by simp

lemma requestedSeconds_Fin: "requestedSeconds (JNum (Fin s)) = Fin (max 0 s)"
  by (simp add: requestedSeconds_def)

lemma billableSeconds_Fin:
  "billableSeconds (JNum (Fin s)) = Fin (of_int (max 1 \<lfloor>max 0 s + 1 / 2\<rfloor>))"
  by (simp add: billableSeconds_def requestedSeconds_Fin)


lemma dec_example: "dec 1700000000000 = ''1700000000000''"
  by (simp add: dec.simps char_of_def bit_Suc_0_iff)

text \<open>Evaluations on the example inputs.\<close>

lemma StringToNumber_15: "StringToNumber (utf16 ''15'') = Fin 15"
proof -
  have "StringNumericValue (utf16 ''15'') = Fin (of_int 15)"
    by code_simp
  from StringToNumber_int [OF this] show ?thesis
    by simp
qed


lemma billable_5_seconds: "billableSeconds (JNum (Fin 5)) = Fin 5"
  by code_simp

lemma creditsPerSecond_unset: "creditsPerSecond env_unset = Fin 15"
  by code_simp

lemma needed_5_seconds: "needed env_unset (JNum (Fin 5)) = Fin 75"
  using js_mul_int [of 5 15] by (simp add: needed_def billable_5_seconds creditsPerSecond_unset)

lemma sub_100_75: "js_sub (Fin 100) (Fin 75) = Fin 25"
  using js_sub_int [of 100 75] by simp

lemma sub_200_75: "js_sub (Fin 200) (Fin 75) = Fin 125"
  using js_sub_int [of 200 75] by simp

lemma sub_125_75: "js_sub (Fin 125) (Fin 75) = Fin 50"
  using js_sub_int [of 125 75] by simp
section \<open>Reserving credits\<close>

lemma v1_jobs_rejects:
  "js_lt (balance (user_or_default st email)) (needed e body) \<Longrightarrow>
   v1_jobs e now email body st =
     (st, Insufficient_credits (needed e body) (balance (user_or_default st email)))"
  by (simp add: v1_jobs_def)

lemma v1_jobs_accepts:
  "\<not> js_lt (balance (user_or_default st email)) (needed e body) \<Longrightarrow>
   v1_jobs e now email body st =
     (st\<lparr>usersByEmail := (usersByEmail st)
          (email \<mapsto> (user_or_default st email)
             \<lparr>balance := js_sub (balance (user_or_default st email)) (needed e body)\<rparr>)\<rparr>,
      Reserved (''task_'' @ dec now) (needed e body))"
  by (simp add: v1_jobs_def Let_def)

lemma user_or_default_update [simp]:
  "user_or_default (st\<lparr>usersByEmail := (usersByEmail st)(email \<mapsto> u)\<rparr>) email = u"
  by (simp add: user_or_default_def)

text \<open>
  C4. When the balance is strictly less than the credits needed, \<open>POST /v1/jobs\<close> answers
  with the insufficient-credits response (HTTP 402), which carries the needed amount and
  the current balance, and the store is exactly what it was: no balance changes and
  nothing else is written.
\<close>

theorem reserve_insufficient_credits:
  assumes "js_lt (balance (user_or_default st email)) (needed e body)"
  shows "v1_jobs e now email body st =
           (st, Insufficient_credits (needed e body) (balance (user_or_default st email)))"
  using assms by (rule v1_jobs_rejects)

theorem reserve_insufficient_credits_witness:
  "js_lt (Fin 0) (Fin 75) \<and>
   v1_jobs env_unset 1700000000000 ''ada@example.com'' (JNum (Fin 5)) (store_with (Fin 0)) =
     (store_with (Fin 0), Insufficient_credits (Fin 75) (Fin 0))"
proof -
  note n = needed_5_seconds
  have b: "balance (user_or_default (store_with (Fin 0)) ''ada@example.com'') = Fin 0"
    by code_simp
  have "js_lt (balance (user_or_default (store_with (Fin 0)) ''ada@example.com''))
          (needed env_unset (JNum (Fin 5)))"
    by (simp add: n b)
  from reserve_insufficient_credits [OF this, of 1700000000000] show ?thesis
    by (simp add: n b)
qed

text \<open>
  C5. When the balance is at least the credits needed, \<open>POST /v1/jobs\<close> succeeds: the
  response carries \<open>reservedCredits = needed\<close>, the user's new balance is the old balance
  minus \<open>needed\<close>, and no other user is touched.
\<close>

theorem reserve_debits_exactly:
  assumes "js_ge (balance (user_or_default st email)) (needed e body)"
  shows "snd (v1_jobs e now email body st) = Reserved (''task_'' @ dec now) (needed e body) \<and>
         balance (user_or_default (fst (v1_jobs e now email body st)) email) =
           js_sub (balance (user_or_default st email)) (needed e body) \<and>
         (\<forall>other. other \<noteq> email \<longrightarrow>
            usersByEmail (fst (v1_jobs e now email body st)) other = usersByEmail st other)"
proof -
  from assms have "\<not> js_lt (balance (user_or_default st email)) (needed e body)"
    by (simp add: js_ge_def)
  then show ?thesis
    by (simp add: v1_jobs_accepts)
qed

theorem reserve_debits_exactly_witness:
  "js_ge (Fin 100) (Fin 75) \<and>
   snd (v1_jobs env_unset 1700000000000 ''ada@example.com'' (JNum (Fin 5)) (store_with (Fin 100))) =
     Reserved ''task_1700000000000'' (Fin 75) \<and>
   balance (user_or_default
     (fst (v1_jobs env_unset 1700000000000 ''ada@example.com'' (JNum (Fin 5)) (store_with (Fin 100))))
     ''ada@example.com'') = Fin 25"
proof -
  note n = needed_5_seconds
  have b: "balance (user_or_default (store_with (Fin 100)) ''ada@example.com'') = Fin 100"
    by code_simp
  have g: "js_ge (balance (user_or_default (store_with (Fin 100)) ''ada@example.com''))
          (needed env_unset (JNum (Fin 5)))"
    by (simp add: n b js_ge_def)
  from reserve_debits_exactly [OF g, of 1700000000000] show ?thesis
    by (simp add: n b dec_example js_ge_def sub_100_75)
qed

text \<open>
  C9, as the code has it. \<open>POST /v1/jobs\<close> takes no task identifier and keeps no record
  of reservations; the identifier it returns is \<open>task_\<close> followed by the clock reading.
  A reserve that follows a successful one is decided by the balance check alone: when
  the balance still covers \<open>needed\<close> it succeeds and debits the balance again, and when
  the clock reading is the same it returns the same \<open>taskId\<close> as the first.
\<close>

theorem reserve_again_same_task_id:
  assumes "v1_jobs e now email body st = (st1, Reserved tid r)"
      and "\<not> js_lt (balance (user_or_default st1 email)) (needed e body)"
  shows "snd (v1_jobs e now email body st1) = Reserved tid r \<and>
         balance (user_or_default (fst (v1_jobs e now email body st1)) email) =
           js_sub (balance (user_or_default st1 email)) (needed e body)"
proof -
  from assms(1) have "tid = ''task_'' @ dec now \<and> r = needed e body"
    by (auto simp: v1_jobs_def Let_def split: if_splits)
  with assms(2) show ?thesis
    by (simp add: v1_jobs_accepts)
qed

lemma user_or_default_store_with [simp]:
  "user_or_default (store_with b) ''ada@example.com'' = user_with b"
  by (simp add: user_or_default_def store_with_def)

lemma balance_user_with [simp]: "balance (user_with b) = b"
  by (simp add: user_with_def)

lemma reserve_first_of_two:
  "v1_jobs env_unset 1700000000000 ''ada@example.com'' (JNum (Fin 5)) (store_with (Fin 200)) =
     ((store_with (Fin 200))\<lparr>usersByEmail := (usersByEmail (store_with (Fin 200)))
         (''ada@example.com'' \<mapsto> (user_with (Fin 200))\<lparr>balance := Fin 125\<rparr>)\<rparr>,
      Reserved ''task_1700000000000'' (Fin 75))"
proof -
  note n = needed_5_seconds
  show ?thesis
    by (simp add: v1_jobs_def Let_def n dec_example sub_200_75)
qed

theorem reserve_again_same_task_id_witness:
  "snd (v1_jobs env_unset 1700000000000 ''ada@example.com'' (JNum (Fin 5))
          ((store_with (Fin 200))\<lparr>usersByEmail := (usersByEmail (store_with (Fin 200)))
             (''ada@example.com'' \<mapsto> (user_with (Fin 200))\<lparr>balance := Fin 125\<rparr>)\<rparr>)) =
     Reserved ''task_1700000000000'' (Fin 75) \<and>
   balance (user_or_default
     (fst (v1_jobs env_unset 1700000000000 ''ada@example.com'' (JNum (Fin 5))
          ((store_with (Fin 200))\<lparr>usersByEmail := (usersByEmail (store_with (Fin 200)))
             (''ada@example.com'' \<mapsto> (user_with (Fin 200))\<lparr>balance := Fin 125\<rparr>)\<rparr>)))
     ''ada@example.com'') = Fin 50"
proof -
  note n = needed_5_seconds
  have c: "\<not> js_lt (balance (user_or_default
       ((store_with (Fin 200))\<lparr>usersByEmail := (usersByEmail (store_with (Fin 200)))
         (''ada@example.com'' \<mapsto> (user_with (Fin 200))\<lparr>balance := Fin 125\<rparr>)\<rparr>)
       ''ada@example.com'')) (needed env_unset (JNum (Fin 5)))"
    by (simp add: n)
  from reserve_again_same_task_id [OF reserve_first_of_two c] show ?thesis
    by (simp add: n sub_125_75)
qed

text \<open>
  The claim C9 fails on the code: two reserves at the same clock reading both succeed,
  both return the task identifier \<open>task_1700000000000\<close>, and the balance of 200 is debited
  twice, down to 50.
\<close>

theorem reserve_duplicate_task_counterexample:
  "snd (v1_jobs env_unset 1700000000000 ''ada@example.com'' (JNum (Fin 5)) (store_with (Fin 200))) =
     Reserved ''task_1700000000000'' (Fin 75) \<and>
   snd (v1_jobs env_unset 1700000000000 ''ada@example.com'' (JNum (Fin 5))
          (fst (v1_jobs env_unset 1700000000000 ''ada@example.com'' (JNum (Fin 5))
                  (store_with (Fin 200))))) =
     Reserved ''task_1700000000000'' (Fin 75) \<and>
   balance (user_or_default
     (fst (v1_jobs env_unset 1700000000000 ''ada@example.com'' (JNum (Fin 5))
          (fst (v1_jobs env_unset 1700000000000 ''ada@example.com'' (JNum (Fin 5))
                  (store_with (Fin 200))))))
     ''ada@example.com'') = Fin 50"
proof -
  note n = needed_5_seconds
  show ?thesis
    by (simp add: v1_jobs_def Let_def n dec_example sub_200_75 sub_125_75)
qed


section \<open>Seconds to credits\<close>

lemma needed_Fin:
  assumes "creditsPerSecond e = Fin (of_nat c)"
  shows "needed e (JNum (Fin s)) =
           round_double (of_nat (nat (max 1 \<lfloor>max 0 s + 1 / 2\<rfloor>) * c))"
proof -
  have "(of_int (max 1 \<lfloor>max 0 s + 1 / 2\<rfloor>) :: rat) =
          of_nat (nat (max 1 \<lfloor>max 0 s + 1 / 2\<rfloor>))"
    by simp
  then show ?thesis
    by (simp add: needed_def billableSeconds_Fin assms)
qed

lemma calculateCredits_Fin:
  assumes "ToNumber (opt_val (CREDITS_PER_SECOND e)) = Fin (of_nat c)"
      and "\<bar>\<lceil>s\<rceil> * int c\<bar> < 2 ^ 53"
  shows "calculateCredits e (JNum (Fin s)) = Inr (Fin (of_int (\<lceil>s\<rceil> * int c)))"
proof -
  have "js_mul (Fin (of_int \<lceil>s\<rceil>)) (Fin (of_int (int c))) = Fin (of_int (\<lceil>s\<rceil> * int c))"
    using assms(2) by (rule js_mul_int)
  then show ?thesis
    by (simp add: calculateCredits_def assms(1))
qed

text \<open>
  C6, as the code has it. With \<open>creditsPerSecond\<close> a non-negative integer \<open>c\<close>, the
  reserve path turns a finite number of seconds \<open>s\<close> into the double nearest to
  \<open>max(1, round(max(0, s))) * c\<close>: that is never negative and never fractional, it is the
  product itself when the product is below \<open>2^53\<close>, and it is \<open>Infinity\<close> when the
  product overflows. The settlement path (\<open>calculateCredits\<close>) turns a positive number of
  seconds into \<open>ceil(s) * c\<close>, which differs where \<open>s\<close> has a fraction below one half.
\<close>

theorem seconds_to_credits:
  assumes "creditsPerSecond e = Fin (of_nat c)"
      and "ToNumber (opt_val (CREDITS_PER_SECOND e')) = Fin (of_nat c')"
  shows "needed e (JNum (Fin s)) =
           round_double (of_nat (nat (max 1 \<lfloor>max 0 s + 1 / 2\<rfloor>) * c)) \<and>
         (needed e (JNum (Fin s)) = PosInf \<or>
            (\<exists>k :: nat. needed e (JNum (Fin s)) = Fin (of_nat k))) \<and>
         (max 1 \<lfloor>max 0 s + 1 / 2\<rfloor> * int c < 2 ^ 53 \<longrightarrow>
            needed e (JNum (Fin s)) = Fin (of_int (max 1 \<lfloor>max 0 s + 1 / 2\<rfloor> * int c))) \<and>
         (0 < s \<and> \<lceil>s\<rceil> * int c' < 2 ^ 53 \<longrightarrow>
            calculateCredits e' (JNum (Fin s)) = Inr (Fin (of_int (\<lceil>s\<rceil> * int c'))))"
proof -
  let ?m = "max 1 \<lfloor>max 0 s + 1 / 2\<rfloor>"
  have n: "needed e (JNum (Fin s)) = round_double (of_nat (nat ?m * c))"
    using assms(1) by (rule needed_Fin)
  have whole: "needed e (JNum (Fin s)) = PosInf \<or>
      (\<exists>k :: nat. needed e (JNum (Fin s)) = Fin (of_nat k))"
    unfolding n by (rule round_double_nat)
  have exact: "needed e (JNum (Fin s)) = Fin (of_int (?m * int c))" if "?m * int c < 2 ^ 53"
  proof -
    have "0 \<le> ?m * int c"
      by simp
    with that have "\<bar>?m * int c\<bar> < 2 ^ 53"
      by simp
    then have "round_double (of_int (?m * int c)) = Fin (of_int (?m * int c))"
      by (rule round_double_int)
    moreover have "(of_nat (nat ?m * c) :: rat) = of_int (?m * int c)"
      by simp
    ultimately show ?thesis
      unfolding n by simp
  qed
  have settle: "calculateCredits e' (JNum (Fin s)) = Inr (Fin (of_int (\<lceil>s\<rceil> * int c')))"
    if "0 < s" and "\<lceil>s\<rceil> * int c' < 2 ^ 53"
  proof -
    from that(1) have "0 \<le> \<lceil>s\<rceil> * int c'"
      by (simp add: less_imp_le)
    with that(2) have "\<bar>\<lceil>s\<rceil> * int c'\<bar> < 2 ^ 53"
      by simp
    with assms(2) show ?thesis
      by (rule calculateCredits_Fin)
  qed
  from n whole exact settle show ?thesis
    by blast
qed

lemma env_15_credits: "ToNumber (opt_val (CREDITS_PER_SECOND env_15)) = Fin (of_nat 15)"
  by (simp add: env_15_def env_unset_def opt_val_def StringToNumber_15)

lemma calculateCredits_3_25: "calculateCredits env_15 (JNum (Fin (13 / 4))) = Inr (Fin 60)"
proof -
  have c: "\<lceil>13 / 4 :: rat\<rceil> = 4"
    by code_simp
  from calculateCredits_Fin [OF env_15_credits, of "13 / 4"] show ?thesis
    by (simp add: c)
qed

theorem seconds_to_credits_witness:
  "creditsPerSecond env_unset = Fin 15 \<and>
   needed env_unset (JNum (Fin (13 / 4))) = Fin 45 \<and>
   calculateCredits env_15 (JNum (Fin (13 / 4))) = Inr (Fin 60)"
proof -
  have a: "creditsPerSecond env_unset = Fin (of_nat 15)"
    using creditsPerSecond_unset by simp
  have m: "\<lfloor>15 / 4 :: rat\<rfloor> = 3"
    by code_simp
  have c: "\<lceil>13 / 4 :: rat\<rceil> = 4"
    by code_simp
  note t = seconds_to_credits [OF a env_15_credits, of "13 / 4"]
  from t [THEN conjunct2, THEN conjunct2, THEN conjunct1]
  have n: "needed env_unset (JNum (Fin (13 / 4))) = Fin 45"
    by (simp add: m)
  from t [THEN conjunct2, THEN conjunct2, THEN conjunct2]
  have s: "calculateCredits env_15 (JNum (Fin (13 / 4))) = Inr (Fin 60)"
    by (simp add: c)
  from n s creditsPerSecond_unset show ?thesis
    by simp
qed

text \<open>
  The claim C6 fails on the code: for 3.25 seconds at 15 credits per second
  \<open>calculateCredits\<close> gives \<open>ceil(3.25) * 15 = 60\<close>, where
  \<open>max(1, round(3.25)) * 15\<close> is 45.
\<close>

theorem seconds_to_credits_counterexample:
  "calculateCredits env_15 (JNum (Fin (13 / 4))) = Inr (Fin 60) \<and>
   js_mul (Math_max (Fin 1) (Math_round (Math_max (Fin 0) (Fin (13 / 4))))) (Fin 15) = Fin 45"
proof -
  have "Math_max (Fin 1) (Math_round (Math_max (Fin 0) (Fin (13 / 4)))) = Fin 3"
    by code_simp
  moreover have "js_mul (Fin 3) (Fin 15) = Fin 45"
    using js_mul_int [of 3 15] by simp
  ultimately show ?thesis
    by (simp add: calculateCredits_3_25)
qed

section \<open>Settlement: \<open>POST /status\<close> and \<open>subtractCredits\<close>\<close>

lemma in_int4_below_2_53: "in_int4 c \<Longrightarrow> \<bar>c\<bar> < 2 ^ 53"
proof -
  assume "in_int4 c"
  then have "- 2147483648 \<le> c" and "c \<le> 2147483647"
    by (simp_all add: in_int4_def)
  moreover have "(2147483648 :: int) < 2 ^ 53"
    by simp
  ultimately show ?thesis
    by linarith
qed

lemma pg_integer_of_int: "in_int4 c \<Longrightarrow> pg_integer (Fin (of_int c)) = Some c"
  by (simp add: pg_integer_def)

lemma calculateCredits_number:
  assumes "ToNumber (opt_val (CREDITS_PER_SECOND e)) = Fin (of_nat k)"
      and "ToNumber seconds = Fin s"
      and "in_int4 (\<lceil>s\<rceil> * int k)"
  shows "calculateCredits e seconds = Inr (Fin (of_int (\<lceil>s\<rceil> * int k)))"
proof -
  have "js_mul (Fin (of_int \<lceil>s\<rceil>)) (Fin (of_int (int k))) = Fin (of_int (\<lceil>s\<rceil> * int k))"
    using assms(3) by (intro js_mul_int in_int4_below_2_53)
  then show ?thesis
    by (simp add: calculateCredits_def assms(1,2))
qed

lemma subtractCredits_updates:
  assumes "pool_clients db < pool_max db"
      and "calculateCredits e seconds = Inr (Fin (of_int c))"
      and "in_int4 c"
      and "users db email = Some row"
      and "in_int4 (db_balance row - c)"
  shows "subtractCredits e email seconds db =
           (db\<lparr>users := (users db)(email \<mapsto> row\<lparr>db_balance := db_balance row - c\<rparr>),
               pool_clients := pool_clients db + 1\<rparr>,
            Inr (db_balance row - c))"
  using assms by (simp add: subtractCredits_def pool_connect_def pg_integer_of_int)

lemma v2_status_succeeded:
  assumes "truthy task_id" and "truthy seconds"
      and "retrieve task_id = Some ''SUCCEEDED''"
      and "ToNumber (opt_val (CREDITS_PER_SECOND e)) = Fin (of_nat k)"
      and "ToNumber seconds = Fin s"
      and "in_int4 (\<lceil>s\<rceil> * int k)"
      and "users db email = Some row"
      and "in_int4 (db_balance row - \<lceil>s\<rceil> * int k)"
      and "pool_clients db < pool_max db"
  shows "v2_status e retrieve email task_id seconds db =
           (db\<lparr>users := (users db)
                  (email \<mapsto> row\<lparr>db_balance := db_balance row - \<lceil>s\<rceil> * int k\<rparr>),
               pool_clients := pool_clients db + 1\<rparr>,
            Task_with_credits ''SUCCEEDED'' (db_balance row - \<lceil>s\<rceil> * int k))"
proof -
  have "calculateCredits e seconds = Inr (Fin (of_int (\<lceil>s\<rceil> * int k)))"
    using assms(4,5,6) by (rule calculateCredits_number)
  then have "subtractCredits e email seconds db =
      (db\<lparr>users := (users db)
             (email \<mapsto> row\<lparr>db_balance := db_balance row - \<lceil>s\<rceil> * int k\<rparr>),
          pool_clients := pool_clients db + 1\<rparr>,
       Inr (db_balance row - \<lceil>s\<rceil> * int k))"
    using assms(9,6,7,8) by (intro subtractCredits_updates)
  with assms(1-3) show ?thesis
    by (simp add: v2_status_def)
qed

text \<open>A debit that the balance covers stays inside the range of the column.\<close>

lemma covered_debit_in_range:
  assumes "0 \<le> c" and "c \<le> b" and "in_int4 b"
  shows "in_int4 c" and "in_int4 (b - c)"
  using assms by (simp_all add: in_int4_def)

lemma ceiling_times_rate_nonneg: "0 < (s :: rat) \<Longrightarrow> 0 \<le> \<lceil>s\<rceil> * int k"
  by (simp add: less_imp_le)

text \<open>
  C2, as the code has it. Take a task that the provider reports as \<open>SUCCEEDED\<close>, a
  natural number \<open>k\<close> of credits per second, a positive finite number \<open>s\<close> of seconds,
  a user whose row holds a balance that covers \<open>ceil(s) * k\<close>, and a free pool client.
  Then settlement is a debit: \<open>POST /status\<close> lowers the balance by \<open>ceil(s) * k\<close>,
  which leaves it non-negative, and answers with the new balance. No reserved amount
  enters the computation and nothing is refunded.
\<close>

theorem settle_debits_used_credits:
  assumes "truthy task_id" and "truthy seconds"
      and "retrieve task_id = Some ''SUCCEEDED''"
      and "ToNumber (opt_val (CREDITS_PER_SECOND e)) = Fin (of_nat k)"
      and "ToNumber seconds = Fin s" and "0 < s"
      and "users db email = Some row"
      and "in_int4 (db_balance row)"
      and "\<lceil>s\<rceil> * int k \<le> db_balance row"
      and "pool_clients db < pool_max db"
  shows "map_option db_balance (users (fst (v2_status e retrieve email task_id seconds db)) email) =
           Some (db_balance row - \<lceil>s\<rceil> * int k) \<and>
         snd (v2_status e retrieve email task_id seconds db) =
           Task_with_credits ''SUCCEEDED'' (db_balance row - \<lceil>s\<rceil> * int k) \<and>
         0 \<le> db_balance row - \<lceil>s\<rceil> * int k"
proof -
  have c0: "0 \<le> \<lceil>s\<rceil> * int k"
    using assms(6) by (rule ceiling_times_rate_nonneg)
  have r1: "in_int4 (\<lceil>s\<rceil> * int k)" and r2: "in_int4 (db_balance row - \<lceil>s\<rceil> * int k)"
    using c0 assms(9,8) by (rule covered_debit_in_range)+
  have "v2_status e retrieve email task_id seconds db =
      (db\<lparr>users := (users db)
             (email \<mapsto> row\<lparr>db_balance := db_balance row - \<lceil>s\<rceil> * int k\<rparr>),
          pool_clients := pool_clients db + 1\<rparr>,
       Task_with_credits ''SUCCEEDED'' (db_balance row - \<lceil>s\<rceil> * int k))"
    using assms(1,2,3,4,5) r1 assms(7) r2 assms(10) by (rule v2_status_succeeded)
  then show ?thesis
    using assms(9) by simp
qed

lemma db_with_fields [simp]:
  "users (db_with b n) ''ada@example.com'' = Some (row_with b)"
  "pool_clients (db_with b n) = n"
  "pool_max (db_with b n) = 10"
  "db_balance (row_with b) = b"
  by (simp_all add: db_with_def row_with_def)

lemma ceiling_5: "\<lceil>5 :: rat\<rceil> = 5"
  by simp

theorem settle_debits_used_credits_witness:
  "map_option db_balance
     (users (fst (v2_status env_15 succeeded ''ada@example.com'' (JStr (utf16 ''task-1''))
             (JNum (Fin 3)) (db_with 100 0))) ''ada@example.com'') = Some 55 \<and>
   snd (v2_status env_15 succeeded ''ada@example.com'' (JStr (utf16 ''task-1'')) (JNum (Fin 3))
          (db_with 100 0)) = Task_with_credits ''SUCCEEDED'' 55"
proof -
  have t: "truthy (JStr (utf16 ''task-1''))"
    by (simp add: utf16_def)
  from settle_debits_used_credits [of "JStr (utf16 ''task-1'')" "JNum (Fin 3)" succeeded env_15 15 3
      "db_with 100 0" "''ada@example.com''" "row_with 100", OF t _ _ env_15_credits]
  show ?thesis
    by (simp add: succeeded_def in_int4_def)
qed

lemma settle_5_seconds:
  assumes "in_int4 b" and "75 \<le> b" and "n < 10"
  shows "v2_status env_15 succeeded ''ada@example.com'' (JStr (utf16 ''task-1'')) (JNum (Fin 5))
           (db_with b n) =
         ((db_with b n)\<lparr>users := (users (db_with b n))
              (''ada@example.com'' \<mapsto> (row_with b)\<lparr>db_balance := b - 75\<rparr>),
            pool_clients := n + 1\<rparr>,
          Task_with_credits ''SUCCEEDED'' (b - 75))"
proof -
  have t: "truthy (JStr (utf16 ''task-1''))"
    by (simp add: utf16_def)
  have r: "in_int4 (b - \<lceil>5 :: rat\<rceil> * int 15)"
    using assms(1,2) by (simp add: in_int4_def)
  from v2_status_succeeded [of "JStr (utf16 ''task-1'')" "JNum (Fin 5)" succeeded env_15 15 5
      "db_with b n" "''ada@example.com''" "row_with b", OF t _ _ env_15_credits]
  show ?thesis
    using assms r by (simp add: succeeded_def in_int4_def)
qed

text \<open>
  The claim C2 fails on the code: a user with balance 100 whose task ran 5 seconds (75
  credits) and is settled ends with balance 25. The balance change at settlement is -75,
  where the claim allows only a refund, a change that is never negative.
\<close>

theorem settle_refund_counterexample:
  "map_option db_balance (users (db_with 100 0) ''ada@example.com'') = Some 100 \<and>
   map_option db_balance
     (users (fst (v2_status env_15 succeeded ''ada@example.com'' (JStr (utf16 ''task-1''))
             (JNum (Fin 5)) (db_with 100 0))) ''ada@example.com'') = Some 25"
  by (simp add: settle_5_seconds in_int4_def)

text \<open>
  C1, as the code has it. The server keeps no reservation and no record of settled tasks.
  Take a task that the provider reports as \<open>SUCCEEDED\<close>, a natural number \<open>k\<close> of
  credits per second, positive finite numbers of seconds in both calls, a user whose row
  holds a balance that covers both debits, and two free pool clients. Then two
  \<open>POST /status\<close> calls for the same task identifier each debit the balance: the second
  call lowers it by \<open>ceil(seconds) * k\<close> once more and answers with the new balance.
\<close>

theorem settle_twice_debits_twice:
  assumes "truthy task_id" and "truthy s1" and "truthy s2"
      and "retrieve task_id = Some ''SUCCEEDED''"
      and "ToNumber (opt_val (CREDITS_PER_SECOND e)) = Fin (of_nat k)"
      and "ToNumber s1 = Fin a1" and "ToNumber s2 = Fin a2"
      and "0 < a1" and "0 < a2"
      and "users db email = Some row"
      and "in_int4 (db_balance row)"
      and "\<lceil>a1\<rceil> * int k + \<lceil>a2\<rceil> * int k \<le> db_balance row"
      and "pool_clients db + 1 < pool_max db"
  shows "map_option db_balance
           (users (fst (v2_status e retrieve email task_id s2
                   (fst (v2_status e retrieve email task_id s1 db)))) email) =
           Some (db_balance row - \<lceil>a1\<rceil> * int k - \<lceil>a2\<rceil> * int k) \<and>
         snd (v2_status e retrieve email task_id s2
                (fst (v2_status e retrieve email task_id s1 db))) =
           Task_with_credits ''SUCCEEDED'' (db_balance row - \<lceil>a1\<rceil> * int k - \<lceil>a2\<rceil> * int k)"
proof -
  let ?c1 = "\<lceil>a1\<rceil> * int k" and ?c2 = "\<lceil>a2\<rceil> * int k"
  let ?row1 = "row\<lparr>db_balance := db_balance row - ?c1\<rparr>"
  let ?db1 = "db\<lparr>users := (users db)(email \<mapsto> ?row1), pool_clients := pool_clients db + 1\<rparr>"
  have c1: "0 \<le> ?c1" and c2: "0 \<le> ?c2"
    using assms(8,9) by (simp_all add: less_imp_le)
  have le1: "?c1 \<le> db_balance row"
    using c2 assms(12) by simp
  have r1: "in_int4 ?c1" and r1': "in_int4 (db_balance row - ?c1)"
    using c1 le1 assms(11) by (rule covered_debit_in_range)+
  have le2: "?c2 \<le> db_balance row - ?c1"
    using assms(12) by simp
  have r2: "in_int4 ?c2" and r2': "in_int4 (db_balance row - ?c1 - ?c2)"
    using c2 le2 r1' by (rule covered_debit_in_range)+
  have p1: "pool_clients db < pool_max db"
    using assms(13) by simp
  have first: "v2_status e retrieve email task_id s1 db =
      (?db1, Task_with_credits ''SUCCEEDED'' (db_balance row - ?c1))"
    using assms(1,2,4,5,6) r1 assms(10) r1' p1 by (rule v2_status_succeeded)
  have u1: "users ?db1 email = Some ?row1"
    by simp
  have range: "in_int4 (db_balance ?row1 - ?c2)"
    using r2' by simp
  have p2: "pool_clients ?db1 < pool_max ?db1"
    using assms(13) by simp
  have second: "v2_status e retrieve email task_id s2 ?db1 =
      (?db1\<lparr>users := (users ?db1)(email \<mapsto> ?row1\<lparr>db_balance := db_balance ?row1 - ?c2\<rparr>),
             pool_clients := pool_clients ?db1 + 1\<rparr>,
       Task_with_credits ''SUCCEEDED'' (db_balance ?row1 - ?c2))"
    using assms(1,3,4,5,7) r2 u1 range p2 by (rule v2_status_succeeded)
  show ?thesis
    unfolding first fst_conv second by simp
qed

theorem settle_twice_debits_twice_witness:
  "map_option db_balance
     (users (fst (v2_status env_15 succeeded ''ada@example.com'' (JStr (utf16 ''task-1''))
        (JNum (Fin 2))
        (fst (v2_status env_15 succeeded ''ada@example.com'' (JStr (utf16 ''task-1''))
                (JNum (Fin 4)) (db_with 200 0))))) ''ada@example.com'') = Some 110"
proof -
  have t: "truthy (JStr (utf16 ''task-1''))"
    by (simp add: utf16_def)
  from settle_twice_debits_twice [of "JStr (utf16 ''task-1'')" "JNum (Fin 4)" "JNum (Fin 2)"
      succeeded env_15 15 4 2 "db_with 200 0" "''ada@example.com''" "row_with 200",
      OF t _ _ _ env_15_credits]
  show ?thesis
    by (simp add: succeeded_def in_int4_def)
qed

text \<open>
  The claim C1 fails on the code: with balance 200, a first settle of task \<open>task-1\<close> for
  5 seconds leaves 125, and a second settle of the same task leaves 50: the second call
  changed the balance by -75 and did not answer with a zero refund.
\<close>

theorem settle_idempotence_counterexample:
  "map_option db_balance
     (users (fst (v2_status env_15 succeeded ''ada@example.com'' (JStr (utf16 ''task-1''))
             (JNum (Fin 5)) (db_with 200 0))) ''ada@example.com'') = Some 125 \<and>
   map_option db_balance
     (users (fst (v2_status env_15 succeeded ''ada@example.com'' (JStr (utf16 ''task-1''))
        (JNum (Fin 5))
        (fst (v2_status env_15 succeeded ''ada@example.com'' (JStr (utf16 ''task-1''))
                (JNum (Fin 5)) (db_with 200 0))))) ''ada@example.com'') = Some 50 \<and>
   snd (v2_status env_15 succeeded ''ada@example.com'' (JStr (utf16 ''task-1'')) (JNum (Fin 5))
        (fst (v2_status env_15 succeeded ''ada@example.com'' (JStr (utf16 ''task-1''))
                (JNum (Fin 5)) (db_with 200 0)))) = Task_with_credits ''SUCCEEDED'' 50"
proof -
  have same: "(db_with 200 0)\<lparr>users := (users (db_with 200 0))
        (''ada@example.com'' \<mapsto> (row_with 200)\<lparr>db_balance := 200 - 75\<rparr>),
      pool_clients := 0 + 1\<rparr> = db_with 125 1"
    by (simp add: db_with_def row_with_def)
  have first: "v2_status env_15 succeeded ''ada@example.com'' (JStr (utf16 ''task-1''))
      (JNum (Fin 5)) (db_with 200 0) = (db_with 125 1, Task_with_credits ''SUCCEEDED'' 125)"
    using settle_5_seconds [of 200 0] same by (simp add: in_int4_def)
  show ?thesis
    by (simp add: first settle_5_seconds in_int4_def)
qed

section \<open>The balance can fall below zero\<close>

text \<open>
  C3. \<open>subtractCredits\<close> subtracts without a check (its own comment reads
  \<open>TODO: Make sure balance cannot go below 0\<close>): settling a 5-second task for a user
  whose balance is 10 stores the balance -65.
\<close>

theorem settle_drives_balance_negative:
  "map_option db_balance
     (users (fst (v2_status env_15 succeeded ''ada@example.com'' (JStr (utf16 ''task-1''))
             (JNum (Fin 5)) (db_with 10 0))) ''ada@example.com'') = Some (- 65) \<and>
   snd (v2_status env_15 succeeded ''ada@example.com'' (JStr (utf16 ''task-1'')) (JNum (Fin 5))
          (db_with 10 0)) = Task_with_credits ''SUCCEEDED'' (- 65)"
proof -
  have t: "truthy (JStr (utf16 ''task-1''))"
    by (simp add: utf16_def)
  from v2_status_succeeded [of "JStr (utf16 ''task-1'')" "JNum (Fin 5)" succeeded env_15 15 5
      "db_with 10 0" "''ada@example.com''" "row_with 10", OF t _ _ env_15_credits]
  show ?thesis
    by (simp add: succeeded_def in_int4_def)
qed
section \<open>Billing webhooks\<close>

lemma verify_hmac_unset [simp]: "verify_hmac hmac env_unset req = Hmac_ok"
  by (simp add: verify_hmac_def env_unset_def opt_val_def)

lemma mark_processed_Some [simp]: "w \<noteq> [] \<Longrightarrow> mark_processed (Some w) ids = insert w ids"
  by (simp add: mark_processed_def)

lemma is_duplicate_Some [simp]:
  "is_duplicate st (Some w) = (w \<noteq> [] \<and> w \<in> processedWebhookIds st)"
  by (simp add: is_duplicate_def)

lemma shopify_webhook_duplicate:
  "is_duplicate st (x_shopify_webhook_id req) \<Longrightarrow>
   shopify_webhook hmac parse e now req st = (st, Duplicate)"
  by (simp add: shopify_webhook_def)


lemma shopify_webhook_processed:
  assumes "\<not> is_duplicate st (x_shopify_webhook_id req)"
      and "verify_hmac hmac e req = Hmac_ok"
  shows "shopify_webhook hmac parse e now req st =
           (\<lparr>usersByEmail = process_order parse e now req (usersByEmail st),
             processedWebhookIds =
               mark_processed (x_shopify_webhook_id req) (processedWebhookIds st)\<rparr>,
            Received (x_shopify_topic req) now)"
  using assms by (simp add: shopify_webhook_def)

lemma delivery_fields [simp]:
  "x_shopify_webhook_id (delivery w b) = Some w"
  "x_shopify_topic (delivery w b) = Some ''orders/paid''"
  "raw_body (delivery w b) = b"
  by (simp_all add: delivery_def)

lemma store_with_fields [simp]:
  "usersByEmail (store_with b) = [''ada@example.com'' \<mapsto> user_with b]"
  "processedWebhookIds (store_with b) = {}"
  by (simp_all add: store_with_def)


lemma add_10_7500: "js_add (Fin 10) (Fin 7500) = Fin 7510"
  by (simp add: round_double_numeral)



lemma process_unparsed_example:
  "process_order parse_example env_unset now (delivery w ''not json'') us = us"
  by (simp add: process_order_def parse_example_def)







text \<open>
  C8, as the code has it. There is no \<open>failed\<close> state. When the body of an accepted
  delivery cannot be parsed, the error is caught and logged, no balance changes, the
  delivery is answered \<open>received\<close>, and its webhook id is recorded in
  \<open>processedWebhookIds\<close> all the same; a redelivery under that id is ignored as a
  duplicate, whatever its body.
\<close>

theorem webhook_failure_recorded_as_processed:
  assumes "x_shopify_webhook_id req = Some w" and "w \<noteq> []"
      and "w \<notin> processedWebhookIds st"
      and "verify_hmac hmac e req = Hmac_ok"
      and "parse (raw_body req) = None"
      and "x_shopify_webhook_id req' = Some w"
  shows "shopify_webhook hmac parse e now req st =
           (st\<lparr>processedWebhookIds := insert w (processedWebhookIds st)\<rparr>,
            Received (x_shopify_topic req) now) \<and>
         shopify_webhook hmac' parse' e' now' req'
             (st\<lparr>processedWebhookIds := insert w (processedWebhookIds st)\<rparr>) =
           (st\<lparr>processedWebhookIds := insert w (processedWebhookIds st)\<rparr>, Duplicate)"
proof -
  have "\<not> is_duplicate st (x_shopify_webhook_id req)"
    using assms(1,3) by simp
  then have first: "shopify_webhook hmac parse e now req st =
      (st\<lparr>processedWebhookIds := insert w (processedWebhookIds st)\<rparr>,
       Received (x_shopify_topic req) now)"
    using assms(1,2,4,5) by (simp add: shopify_webhook_processed process_order_def)
  have "is_duplicate (st\<lparr>processedWebhookIds := insert w (processedWebhookIds st)\<rparr>)
          (x_shopify_webhook_id req')"
    using assms(2,6) by simp
  then have second: "shopify_webhook hmac' parse' e' now' req'
             (st\<lparr>processedWebhookIds := insert w (processedWebhookIds st)\<rparr>) =
           (st\<lparr>processedWebhookIds := insert w (processedWebhookIds st)\<rparr>, Duplicate)"
    by (rule shopify_webhook_duplicate)
  from first second show ?thesis
    by simp
qed

theorem webhook_failure_recorded_as_processed_witness:
  "shopify_webhook no_hmac parse_example env_unset 1000 (delivery ''evt3'' ''not json'')
     (store_with (Fin 10)) =
   ((store_with (Fin 10))\<lparr>processedWebhookIds := {''evt3''}\<rparr>,
    Received (Some ''orders/paid'') 1000) \<and>
   shopify_webhook no_hmac parse_example env_unset 2000 (delivery ''evt3'' ''renewal.json'')
     ((store_with (Fin 10))\<lparr>processedWebhookIds := {''evt3''}\<rparr>) =
   ((store_with (Fin 10))\<lparr>processedWebhookIds := {''evt3''}\<rparr>, Duplicate)"
proof -
  have p: "parse_example (raw_body (delivery ''evt3'' ''not json'')) = None"
    by (simp add: parse_example_def)
  from webhook_failure_recorded_as_processed [of "delivery ''evt3'' ''not json''" "''evt3''"
      "store_with (Fin 10)" no_hmac env_unset parse_example
      "delivery ''evt3'' ''renewal.json''" 1000 no_hmac parse_example env_unset 2000, OF _ _ _ _ p]
  show ?thesis
    by simp
qed

text \<open>
  The claim C8 fails on the code: a delivery with an unparsable body is recorded as
  processed, and the redelivery of the same event with a good renewal body is dropped as a
  duplicate: the balance stays at 10 and no credits are granted.
\<close>

theorem webhook_failed_event_counterexample:
  "snd (shopify_webhook no_hmac parse_example env_unset 1000 (delivery ''evt3'' ''not json'')
          (store_with (Fin 10))) = Received (Some ''orders/paid'') 1000 \<and>
   ''evt3'' \<in> processedWebhookIds
      (fst (shopify_webhook no_hmac parse_example env_unset 1000 (delivery ''evt3'' ''not json'')
              (store_with (Fin 10)))) \<and>
   snd (shopify_webhook no_hmac parse_example env_unset 2000 (delivery ''evt3'' ''renewal.json'')
          (fst (shopify_webhook no_hmac parse_example env_unset 1000
                  (delivery ''evt3'' ''not json'') (store_with (Fin 10))))) = Duplicate \<and>
   balance (user_or_default
     (fst (shopify_webhook no_hmac parse_example env_unset 2000
             (delivery ''evt3'' ''renewal.json'')
             (fst (shopify_webhook no_hmac parse_example env_unset 1000
                     (delivery ''evt3'' ''not json'') (store_with (Fin 10))))))
     ''ada@example.com'') = Fin 10"
  by (simp add: shopify_webhook_processed shopify_webhook_duplicate process_unparsed_example
      user_or_default_def)

section \<open>A reserve for a non-numeric number of seconds\<close>







end
